theory Spec2Isabelle
  imports Complex_Main "HOL-Library.Multiset"
begin

section \<open>JavaScript strings, numbers and arrays as the components use them\<close>

text \<open>
  The dashboard components \<^verbatim>\<open>NewsFeed\<close>, \<^verbatim>\<open>AnalystQuotes\<close> and \<^verbatim>\<open>ConflictCharts\<close> compute
  their view inside a \<^verbatim>\<open>useEffect\<close> body from the \<^verbatim>\<open>filters\<close> prop and a constant array.
  Each body is embedded as a function from the filters, the array and the limit to the
  value handed to the state setter.

  Strings are \<^typ>\<open>string\<close>. \<open>toLowerCase\<close> maps \<open>A\<close>..\<open>Z\<close> to \<open>a\<close>..\<open>z\<close> and leaves
  every other character alone: this is \<^verbatim>\<open>String.prototype.toLowerCase\<close> on strings of
  7-bit characters, and only there; a property that depends on the lower-casing is
  stated for such strings. Finite numbers are \<^typ>\<open>real\<close> (only differences of scores are
  taken, and the sign of a difference of two finite doubles is the sign of the exact
  difference); \<^verbatim>\<open>NaN\<close> is a value of its own. A text or category field that is
  \<^verbatim>\<open>undefined\<close>, \<^verbatim>\<open>null\<close> or absent is \<open>None\<close>: the code treats the three alike. A
  \<^verbatim>\<open>priority_score\<close> keeps \<^verbatim>\<open>null\<close> and \<^verbatim>\<open>undefined\<close> apart, since \<^verbatim>\<open>null\<close> counts as 0 in
  a subtraction and \<^verbatim>\<open>undefined\<close> as \<^verbatim>\<open>NaN\<close>.
\<close>

definition lower_char :: "char \<Rightarrow> char" where
  "lower_char c =
     (case map_of (zip ''ABCDEFGHIJKLMNOPQRSTUVWXYZ'' ''abcdefghijklmnopqrstuvwxyz'') c of
        Some d \<Rightarrow> d
      | None \<Rightarrow> c)"

definition toLowerCase :: "string \<Rightarrow> string" where
  "toLowerCase s = map lower_char s"

fun startsWith :: "string \<Rightarrow> string \<Rightarrow> bool" where
  "startsWith s [] = True"
| "startsWith [] (q # qs) = False"
| "startsWith (c # cs) (q # qs) = (c = q \<and> startsWith cs qs)"

text \<open>\<^verbatim>\<open>s.includes(q)\<close>: \<open>q\<close> occurs in \<open>s\<close> as a contiguous run of characters.\<close>

fun str_includes :: "string \<Rightarrow> string \<Rightarrow> bool" where
  "str_includes [] q = (q = [])"
| "str_includes (c # cs) q = (startsWith (c # cs) q \<or> str_includes cs q)"

datatype js_error = TypeError

datatype js_number = NaN | Num real

text \<open>
  The values of a \<^verbatim>\<open>priority_score\<close>: a number, \<^verbatim>\<open>null\<close>, or \<^verbatim>\<open>undefined\<close> (which is
  also what reading an absent property gives), and the number each one is in an
  arithmetic expression.
\<close>

datatype js_score = Undefined | Null | Number real

fun ToNumber :: "js_score \<Rightarrow> js_number" where
  "ToNumber Undefined = NaN"
| "ToNumber Null = Num 0"
| "ToNumber (Number v) = Num v"

text \<open>
  The two ways the components call \<^verbatim>\<open>toLowerCase().includes(query)\<close> on a field:
  \<^verbatim>\<open>field.toLowerCase()\<close> throws a \<^verbatim>\<open>TypeError\<close> when the field is missing,
  \<^verbatim>\<open>field?.toLowerCase()\<close> gives \<^verbatim>\<open>undefined\<close>, which is falsy. \<^verbatim>\<open>a || b\<close> evaluates \<open>b\<close>
  only when \<open>a\<close> has returned a falsy value.
\<close>

definition member_includes :: "string option \<Rightarrow> string \<Rightarrow> js_error + bool" where
  "member_includes field query =
     (case field of
        None \<Rightarrow> Inl TypeError
      | Some s \<Rightarrow> Inr (str_includes (toLowerCase s) query))"

definition optional_includes :: "string option \<Rightarrow> string \<Rightarrow> js_error + bool" where
  "optional_includes field query =
     (case field of
        None \<Rightarrow> Inr False
      | Some s \<Rightarrow> Inr (str_includes (toLowerCase s) query))"

definition js_or :: "js_error + bool \<Rightarrow> js_error + bool \<Rightarrow> js_error + bool" where
  "js_or a b = (case a of Inl e \<Rightarrow> Inl e | Inr v \<Rightarrow> if v then Inr True else b)"

text \<open>
  \<^verbatim>\<open>xs.slice(start, end)\<close> with integer arguments: a negative index counts from the end
  of the array, and both indices are clamped to the array.
\<close>

definition slice :: "'a list \<Rightarrow> int \<Rightarrow> int \<Rightarrow> 'a list" where
  "slice xs start end =
     (let len = int (length xs);
          k = (if start < 0 then max (len + start) 0 else min start len);
          final = (if end < 0 then max (len + end) 0 else min end len)
      in take (nat (final - k)) (drop (nat k) xs))"

text \<open>
  \<^verbatim>\<open>xs.sort(comparefn)\<close>. The language fixes two things: a comparator result of
  \<^verbatim>\<open>NaN\<close> counts as \<open>0\<close>, and the sort is stable. The model inserts every element, from
  the right, in front of the first element it does not have to follow. For a consistent
  comparator this is the one order a stable sort can produce. For an inconsistent one
  (\<^verbatim>\<open>compare_priority\<close> on three or more items, one of them without a number as score)
  the language leaves the order to the implementation, and of the result only what holds
  of every permutation is used.
\<close>

definition sort_compare :: "('a \<Rightarrow> 'a \<Rightarrow> js_number) \<Rightarrow> 'a \<Rightarrow> 'a \<Rightarrow> real" where
  "sort_compare comparefn a b = (case comparefn a b of NaN \<Rightarrow> 0 | Num v \<Rightarrow> v)"

fun sort_insert :: "('a \<Rightarrow> 'a \<Rightarrow> js_number) \<Rightarrow> 'a \<Rightarrow> 'a list \<Rightarrow> 'a list" where
  "sort_insert comparefn x [] = [x]"
| "sort_insert comparefn x (y # ys) =
     (if sort_compare comparefn x y \<le> 0 then x # y # ys
      else y # sort_insert comparefn x ys)"

fun array_sort :: "('a \<Rightarrow> 'a \<Rightarrow> js_number) \<Rightarrow> 'a list \<Rightarrow> 'a list" where
  "array_sort comparefn [] = []"
| "array_sort comparefn (x # xs) = sort_insert comparefn x (array_sort comparefn xs)"

text \<open>
  \<^verbatim>\<open>xs.filter(p)\<close> for a predicate that can throw: the first exception leaves the
  whole call.
\<close>

fun filter_throwing :: "('a \<Rightarrow> js_error + bool) \<Rightarrow> 'a list \<Rightarrow> js_error + 'a list" where
  "filter_throwing p [] = Inr []"
| "filter_throwing p (x # xs) =
     (case p x of
        Inl e \<Rightarrow> Inl e
      | Inr b \<Rightarrow>
          (case filter_throwing p xs of
             Inl e \<Rightarrow> Inl e
           | Inr ys \<Rightarrow> Inr (if b then x # ys else ys)))"

section \<open>Filter criteria and list items\<close>

text \<open>
  The \<^verbatim>\<open>filters\<close> object built by \<^verbatim>\<open>SearchFilter\<close> and \<^verbatim>\<open>Dashboard\<close>: four strings that
  are always present, the custom date bounds and the \<^verbatim>\<open>dataType\<close> override that are
  present only sometimes.
\<close>

record filters =
  category :: string
  dateRange :: string
  searchQuery :: string
  region :: string
  startDate :: "string option"
  endDate :: "string option"
  dataType :: "string option"

text \<open>
  One record for the article objects and the analyst commentary objects: \<^verbatim>\<open>NewsFeed\<close>
  runs the same code over both, and reads fields that only one of the two carries.
\<close>

record item =
  item_id :: nat
  title :: "string option"
  content :: "string option"
  source :: "string option"
  published_date :: "string option"
  url :: "string option"
  analyst_name :: "string option"
  organization :: "string option"
  date :: "string option"
  priority_score :: js_score
  primary_category :: "string option"
  secondary_category :: "string option"

text \<open>The comparator \<^verbatim>\<open>(a, b) => b.priority_score - a.priority_score\<close>.\<close>

definition compare_priority :: "item \<Rightarrow> item \<Rightarrow> js_number" where
  "compare_priority a b =
     (case (ToNumber (priority_score b), ToNumber (priority_score a)) of
        (Num pb, Num pa) \<Rightarrow> Num (pb - pa)
      | _ \<Rightarrow> NaN)"

definition sort_by_priority :: "item list \<Rightarrow> item list" where
  "sort_by_priority xs = array_sort compare_priority xs"

text \<open>The initial \<^verbatim>\<open>filters\<close> state of \<^verbatim>\<open>Dashboard\<close> (the search query is the empty string).\<close>

definition initialFilters :: filters where
  "initialFilters =
     \<lparr>category = ''all'', dateRange = ''7d'', searchQuery = [], region = ''global'',
      startDate = None, endDate = None, dataType = None\<rparr>"

section \<open>NewsFeed\<close>

definition NewsFeed_category_filter :: "filters \<Rightarrow> item list \<Rightarrow> item list" where
  "NewsFeed_category_filter f filteredData =
     (if category f \<noteq> [] \<and> category f \<noteq> ''all'' then
        filter (\<lambda>i. primary_category i = Some (category f) \<or>
                     secondary_category i = Some (category f)) filteredData
      else filteredData)"

text \<open>\<^verbatim>\<open>field?.toLowerCase().includes(query)\<close>: \<^verbatim>\<open>undefined\<close>, hence falsy, without the field.\<close>

definition field_includes :: "string option \<Rightarrow> string \<Rightarrow> bool" where
  "field_includes field query =
     (case field of None \<Rightarrow> False | Some s \<Rightarrow> str_includes (toLowerCase s) query)"

definition NewsFeed_search_filter :: "filters \<Rightarrow> item list \<Rightarrow> item list" where
  "NewsFeed_search_filter f filteredData =
     (if searchQuery f \<noteq> [] then
        (let query = toLowerCase (searchQuery f)
         in filter (\<lambda>i. field_includes (title i) query \<or> field_includes (content i) query)
              filteredData)
      else filteredData)"

definition NewsFeed_apply :: "filters \<Rightarrow> item list \<Rightarrow> int \<Rightarrow> item list" where
  "NewsFeed_apply f items limit =
     slice (sort_by_priority (NewsFeed_search_filter f (NewsFeed_category_filter f items)))
       0 limit"

text \<open>
  The same body with the exceptions of JavaScript written out, as for \<^verbatim>\<open>AnalystQuotes\<close>
  below: the predicate of the search filter is
  \<^verbatim>\<open>item.title?.toLowerCase().includes(query) || item.content?.toLowerCase().includes(query)\<close>,
  and an exception in it leaves the whole effect. The comparisons with \<^verbatim>\<open>===\<close>, the
  subtraction of two scores, \<^verbatim>\<open>sort\<close> and \<^verbatim>\<open>slice\<close> do not throw.
\<close>

definition article_matches :: "string \<Rightarrow> item \<Rightarrow> js_error + bool" where
  "article_matches query i =
     js_or (optional_includes (title i) query) (optional_includes (content i) query)"

definition NewsFeed_search_effect :: "filters \<Rightarrow> item list \<Rightarrow> js_error + item list" where
  "NewsFeed_search_effect f filteredData =
     (if searchQuery f \<noteq> [] then
        filter_throwing (article_matches (toLowerCase (searchQuery f))) filteredData
      else Inr filteredData)"

definition NewsFeed_effect :: "filters \<Rightarrow> item list \<Rightarrow> int \<Rightarrow> js_error + item list" where
  "NewsFeed_effect f items limit =
     (case NewsFeed_search_effect f (NewsFeed_category_filter f items) of
        Inl e \<Rightarrow> Inl e
      | Inr filteredData \<Rightarrow> Inr (slice (sort_by_priority filteredData) 0 limit))"

section \<open>AnalystQuotes\<close>

definition AnalystQuotes_category_filter :: "filters \<Rightarrow> item list \<Rightarrow> item list" where
  "AnalystQuotes_category_filter f filteredQuotes =
     (if category f \<noteq> [] \<and> category f \<noteq> ''all'' then
        filter (\<lambda>quote. primary_category quote = Some (category f)) filteredQuotes
      else filteredQuotes)"

text \<open>
  \<^verbatim>\<open>quote.content.toLowerCase().includes(query) || quote.analyst_name.toLowerCase()... ||
  quote.organization.toLowerCase()...\<close>: no optional chaining, so a missing field throws
  when it is reached.
\<close>

definition quote_matches :: "string \<Rightarrow> item \<Rightarrow> js_error + bool" where
  "quote_matches query quote =
     js_or (member_includes (content quote) query)
       (js_or (member_includes (analyst_name quote) query)
          (member_includes (organization quote) query))"

definition AnalystQuotes_search_filter :: "filters \<Rightarrow> item list \<Rightarrow> js_error + item list" where
  "AnalystQuotes_search_filter f filteredQuotes =
     (if searchQuery f \<noteq> [] then
        filter_throwing (quote_matches (toLowerCase (searchQuery f))) filteredQuotes
      else Inr filteredQuotes)"

definition AnalystQuotes_apply :: "filters \<Rightarrow> item list \<Rightarrow> int \<Rightarrow> js_error + item list" where
  "AnalystQuotes_apply f items limit =
     (case AnalystQuotes_search_filter f (AnalystQuotes_category_filter f items) of
        Inl e \<Rightarrow> Inl e
      | Inr filteredQuotes \<Rightarrow> Inr (slice (sort_by_priority filteredQuotes) 0 limit))"

section \<open>The constant arrays of the list components\<close>

definition article ::
  "nat \<Rightarrow> string \<Rightarrow> string \<Rightarrow> string \<Rightarrow> string \<Rightarrow> string \<Rightarrow> real \<Rightarrow> string \<Rightarrow> string option \<Rightarrow> item" where
  "article i t c s d u p pc sc =
     \<lparr>item_id = i, title = Some t, content = Some c, source = Some s,
      published_date = Some d, url = Some u, analyst_name = None, organization = None,
      date = None, priority_score = Number p, primary_category = Some pc,
      secondary_category = sc\<rparr>"

definition commentary ::
  "nat \<Rightarrow> string \<Rightarrow> string \<Rightarrow> string \<Rightarrow> string \<Rightarrow> real \<Rightarrow> string \<Rightarrow> item" where
  "commentary i c n g d p pc =
     \<lparr>item_id = i, title = None, content = Some c, source = None,
      published_date = None, url = None, analyst_name = Some n, organization = Some g,
      date = Some d, priority_score = Number p, primary_category = Some pc,
      secondary_category = None\<rparr>"

definition mockArticles :: "item list" where
  "mockArticles =
    [article 1 ''Global Trade Tensions Escalate as US and China Impose New Tariffs''
       ''Trade tensions between the United States and China escalated today as both countries announced new tariffs on each other's goods.''
       ''Financial Times'' ''2023-06-15T10:30:00Z'' ''https://example.com/article1'' 85.5
       ''external_conflict'' (Some ''economic_indicators''),
     article 2 ''Protests Erupt in Major Cities Over Economic Inequality''
       ''Thousands took to the streets in several major cities today, protesting growing economic inequality and government policies.''
       ''The New York Times'' ''2023-06-14T14:45:00Z'' ''https://example.com/article2'' 78.2
       ''internal_conflict'' None,
     article 3 ''Central Banks Signal Shift in Monetary Policy Amid Inflation Concerns''
       ''Several central banks have signaled a potential shift in monetary policy as inflation concerns grow in major economies.''
       ''Bloomberg'' ''2023-06-13T09:15:00Z'' ''https://example.com/article3'' 72.8
       ''economic_indicators'' None,
     article 4 ''Diplomatic Relations Deteriorate Between European Nations Over Resource Disputes''
       ''Diplomatic tensions are rising between several European nations as disputes over shared resources intensify.''
       ''Reuters'' ''2023-06-12T16:20:00Z'' ''https://example.com/article4'' 68.5
       ''external_conflict'' None,
     article 5 ''Political Polarization Reaches New Heights in Legislative Bodies''
       ''Political analysts report unprecedented levels of polarization in legislative bodies, hampering governance and policy implementation.''
       ''The Washington Post'' ''2023-06-11T11:10:00Z'' ''https://example.com/article5'' 65.3
       ''internal_conflict'' None]"

definition mockAnalystCommentary :: "item list" where
  "mockAnalystCommentary =
    [commentary 1
       ''The current trade tensions represent a fundamental shift in the global economic order. We're seeing the early stages of what could be a prolonged period of deglobalization.''
       ''Ray Dalio'' ''Bridgewater Associates'' ''2023-06-15T08:30:00Z'' 90.2 ''external_conflict'',
     commentary 2
       ''Rising inflation combined with slowing growth creates a challenging environment for central banks. We may be entering a period of stagflation similar to the 1970s.''
       ''Mohamed El-Erian'' ''Allianz'' ''2023-06-14T09:45:00Z'' 87.5 ''economic_indicators'',
     commentary 3
       ''The increasing social unrest we're witnessing is a direct consequence of wealth inequality. This internal conflict could have significant implications for political stability.''
       ''Nouriel Roubini'' ''Roubini Macro Associates'' ''2023-06-13T14:20:00Z'' 82.1
       ''internal_conflict'']"

text \<open>
  The array of \<^verbatim>\<open>AnalystQuotes\<close>: its first three objects are, field by field, the three
  objects of \<^verbatim>\<open>NewsFeed\<close>'s commentary array.
\<close>

definition mockAnalystQuotes :: "item list" where
  "mockAnalystQuotes =
    mockAnalystCommentary @
    [commentary 4
       ''Central banks are losing control of the monetary system. The debt levels we're seeing are unsustainable and will eventually lead to a major restructuring of the global financial system.''
       ''Ray Dalio'' ''Bridgewater Associates'' ''2023-06-10T10:15:00Z'' 88.7 ''economic_indicators'',
     commentary 5
       ''The geopolitical landscape is shifting dramatically. We're witnessing the rise of a multipolar world where the US-led order is increasingly challenged by emerging powers.''
       ''Ian Bremmer'' ''Eurasia Group'' ''2023-06-08T16:30:00Z'' 85.3 ''external_conflict'',
     commentary 6
       ''Political polarization has reached dangerous levels in many democracies. The inability to find common ground on basic issues threatens the stability of these systems.''
       ''Francis Fukuyama'' ''Stanford University'' ''2023-06-07T11:45:00Z'' 79.8
       ''internal_conflict'',
     commentary 7
       ''The current debt cycle is approaching its end. We're likely to see a period of deleveraging that will have profound implications for asset prices and economic growth.''
       ''Ray Dalio'' ''Bridgewater Associates'' ''2023-06-05T09:20:00Z'' 86.4 ''economic_indicators'']"

text \<open>
  The components: \<^verbatim>\<open>NewsFeed({ filters, limit = 10 })\<close> picks its array by
  \<^verbatim>\<open>filters.dataType\<close>, \<^verbatim>\<open>AnalystQuotes({ filters, limit = 5 })\<close> has one array.
\<close>

definition NewsFeed :: "filters \<Rightarrow> int option \<Rightarrow> item list" where
  "NewsFeed f limit =
     NewsFeed_apply f
       (if dataType f = Some ''analyst'' then mockAnalystCommentary else mockArticles)
       (case limit of None \<Rightarrow> 10 | Some n \<Rightarrow> n)"

definition AnalystQuotes :: "filters \<Rightarrow> int option \<Rightarrow> js_error + item list" where
  "AnalystQuotes f limit =
     AnalystQuotes_apply f mockAnalystQuotes (case limit of None \<Rightarrow> 5 | Some n \<Rightarrow> n)"

text \<open>\<^verbatim>\<open>getCategoryColor\<close>, the same \<^verbatim>\<open>switch\<close> in both list components.\<close>

definition getCategoryColor :: "string \<Rightarrow> string" where
  "getCategoryColor c =
     (if c = ''internal_conflict'' then ''#f44336''
      else if c = ''external_conflict'' then ''#2196f3''
      else if c = ''economic_indicators'' then ''#4caf50''
      else ''#9e9e9e'')"

section \<open>ConflictCharts\<close>

record time_series =
  dates :: "string list"
  internal_conflict :: "real list"
  external_conflict :: "real list"
  economic_indicators :: "real list"

definition mockTimeSeriesData :: time_series where
  "mockTimeSeriesData =
    \<lparr>dates =
       [''2023-05-15'', ''2023-05-16'', ''2023-05-17'', ''2023-05-18'', ''2023-05-19'',
        ''2023-05-20'', ''2023-05-21'', ''2023-05-22'', ''2023-05-23'', ''2023-05-24'',
        ''2023-05-25'', ''2023-05-26'', ''2023-05-27'', ''2023-05-28'', ''2023-05-29'',
        ''2023-05-30'', ''2023-05-31'', ''2023-06-01'', ''2023-06-02'', ''2023-06-03'',
        ''2023-06-04'', ''2023-06-05'', ''2023-06-06'', ''2023-06-07'', ''2023-06-08'',
        ''2023-06-09'', ''2023-06-10'', ''2023-06-11'', ''2023-06-12'', ''2023-06-13'',
        ''2023-06-14'', ''2023-06-15''],
     internal_conflict =
       [5, 7, 6, 8, 10, 9, 7, 6, 8, 9,
        11, 13, 12, 10, 9, 8, 10, 12, 14, 15,
        13, 12, 14, 16, 18, 17, 15, 14, 16, 18,
        20, 22],
     external_conflict =
       [8, 9, 10, 11, 10, 9, 8, 10, 12, 14,
        13, 12, 11, 10, 12, 14, 15, 16, 15, 14,
        13, 15, 17, 18, 17, 16, 15, 17, 19, 21,
        20, 19],
     economic_indicators =
       [12, 11, 10, 9, 11, 13, 14, 15, 14, 13,
        12, 14, 16, 17, 16, 15, 14, 16, 18, 19,
        18, 17, 16, 15, 17, 19, 20, 19, 18, 17,
        19, 21]\<rparr>"

definition mockPriorityScoreData :: time_series where
  "mockPriorityScoreData =
    \<lparr>dates =
       [''2023-05-15'', ''2023-05-22'', ''2023-05-29'',
        ''2023-06-05'', ''2023-06-12'', ''2023-06-15''],
     internal_conflict = [65, 68, 72, 75, 78, 80],
     external_conflict = [70, 72, 75, 78, 82, 85],
     economic_indicators = [60, 65, 70, 72, 75, 78]\<rparr>"

text \<open>
  The date-range step: \<^verbatim>\<open>endIndex\<close> is the last index of \<^verbatim>\<open>dates\<close>, \<^verbatim>\<open>startIndex\<close>
  is moved back for \<^verbatim>\<open>'1d'\<close>, \<^verbatim>\<open>'7d'\<close> and \<^verbatim>\<open>'30d'\<close> only and clamped by \<^verbatim>\<open>Math.max\<close>;
  all four arrays are then cut with \<^verbatim>\<open>slice(startIndex, endIndex + 1)\<close>.
\<close>

definition dateRange_startIndex :: "filters \<Rightarrow> int \<Rightarrow> int" where
  "dateRange_startIndex f endIndex =
     max 0
       (if dateRange f = ''1d'' then endIndex - 1
        else if dateRange f = ''7d'' then endIndex - 7
        else if dateRange f = ''30d'' then endIndex - 30
        else 0)"

definition filteredTimeSeries :: "filters \<Rightarrow> time_series \<Rightarrow> time_series" where
  "filteredTimeSeries f ts =
     (let endIndex = int (length (dates ts)) - 1;
          startIndex = dateRange_startIndex f endIndex
      in \<lparr>dates = slice (dates ts) startIndex (endIndex + 1),
          internal_conflict = slice (internal_conflict ts) startIndex (endIndex + 1),
          external_conflict = slice (external_conflict ts) startIndex (endIndex + 1),
          economic_indicators = slice (economic_indicators ts) startIndex (endIndex + 1)\<rparr>)"

record dataset =
  label :: string
  data :: "real list"
  borderColor :: "string option"
  backgroundColor :: string
  tension :: "real option"

record chart_data =
  labels :: "string list"
  datasets :: "dataset list"

text \<open>
  The three \<^verbatim>\<open>if\<close> statements that push the datasets of the line chart, in source
  order, and the three of the bar chart.
\<close>

definition timeSeriesDatasets :: "filters \<Rightarrow> time_series \<Rightarrow> dataset list" where
  "timeSeriesDatasets f ts =
     (if category f = ''all'' \<or> category f = ''internal_conflict'' then
        [\<lparr>label = ''Internal Conflict'', data = internal_conflict ts,
          borderColor = Some ''#f44336'', backgroundColor = ''rgba(244, 67, 54, 0.1)'',
          tension = Some 0.4\<rparr>]
      else []) @
     (if category f = ''all'' \<or> category f = ''external_conflict'' then
        [\<lparr>label = ''External Conflict'', data = external_conflict ts,
          borderColor = Some ''#2196f3'', backgroundColor = ''rgba(33, 150, 243, 0.1)'',
          tension = Some 0.4\<rparr>]
      else []) @
     (if category f = ''all'' \<or> category f = ''economic_indicators'' then
        [\<lparr>label = ''Economic Indicators'', data = economic_indicators ts,
          borderColor = Some ''#4caf50'', backgroundColor = ''rgba(76, 175, 80, 0.1)'',
          tension = Some 0.4\<rparr>]
      else [])"

definition priorityScoreDatasets :: "filters \<Rightarrow> time_series \<Rightarrow> dataset list" where
  "priorityScoreDatasets f ts =
     (if category f = ''all'' \<or> category f = ''internal_conflict'' then
        [\<lparr>label = ''Internal Conflict'', data = internal_conflict ts,
          borderColor = None, backgroundColor = ''rgba(244, 67, 54, 0.7)'',
          tension = None\<rparr>]
      else []) @
     (if category f = ''all'' \<or> category f = ''external_conflict'' then
        [\<lparr>label = ''External Conflict'', data = external_conflict ts,
          borderColor = None, backgroundColor = ''rgba(33, 150, 243, 0.7)'',
          tension = None\<rparr>]
      else []) @
     (if category f = ''all'' \<or> category f = ''economic_indicators'' then
        [\<lparr>label = ''Economic Indicators'', data = economic_indicators ts,
          borderColor = None, backgroundColor = ''rgba(76, 175, 80, 0.7)'',
          tension = None\<rparr>]
      else [])"

text \<open>
  The two objects handed to the chart library. The axis labels are the dates run through
  \<^verbatim>\<open>toLocaleDateString\<close>, a parameter here. The line chart is built from the windowed
  series, the bar chart from the whole priority-score series.
\<close>

definition timeSeriesChartData :: "(string \<Rightarrow> string) \<Rightarrow> filters \<Rightarrow> time_series \<Rightarrow> chart_data" where
  "timeSeriesChartData toLocaleDateString f ts =
     \<lparr>labels = map toLocaleDateString (dates (filteredTimeSeries f ts)),
      datasets = timeSeriesDatasets f (filteredTimeSeries f ts)\<rparr>"

definition priorityScoreChartData :: "(string \<Rightarrow> string) \<Rightarrow> filters \<Rightarrow> time_series \<Rightarrow> chart_data" where
  "priorityScoreChartData toLocaleDateString f ps =
     \<lparr>labels = map toLocaleDateString (dates ps),
      datasets = priorityScoreDatasets f ps\<rparr>"

section \<open>Notions used to state the properties\<close>

text \<open>
  Descending order of \<^verbatim>\<open>priority_score\<close>: every item has a score that is a number
  (\<^verbatim>\<open>null\<close> counting as 0) and no later item has a larger one.
\<close>

definition descending_by_priority :: "item list \<Rightarrow> bool" where
  "descending_by_priority xs =
     sorted_wrt (\<lambda>a b. case (ToNumber (priority_score a), ToNumber (priority_score b)) of
                          (Num pa, Num pb) \<Rightarrow> pb \<le> pa
                        | _ \<Rightarrow> False) xs"




text \<open>
  Substring containment after lower-casing, for a field that may be missing: the query
  occurs somewhere in the lower-cased text of the field.
\<close>

definition lowercase_contains :: "string option \<Rightarrow> string \<Rightarrow> bool" where
  "lowercase_contains field query =
     (\<exists>s ps ss. field = Some s \<and> toLowerCase s = ps @ query @ ss)"

text \<open>
  Text of 7-bit characters, on which \<open>toLowerCase\<close> is the lower-casing of the
  language; a missing field has no text.
\<close>

definition ascii :: "string \<Rightarrow> bool" where
  "ascii s = list_all (\<lambda>c. \<not> digit7 c) s"

definition ascii_field :: "string option \<Rightarrow> bool" where
  "ascii_field field = (case field of None \<Rightarrow> True | Some s \<Rightarrow> ascii s)"

definition ascii_item :: "item \<Rightarrow> bool" where
  "ascii_item i =
     (ascii_field (title i) \<and> ascii_field (content i) \<and>
      ascii_field (analyst_name i) \<and> ascii_field (organization i))"

text \<open>
  The searchable text as the specification words it: the title, the content for an item
  without a title, and the analyst name and the organization where they are present.
\<close>

definition spec_search_match :: "string \<Rightarrow> item \<Rightarrow> bool" where
  "spec_search_match query i =
     (field_includes (case title i of Some t \<Rightarrow> Some t | None \<Rightarrow> content i) query \<or>
      field_includes (analyst_name i) query \<or>
      field_includes (organization i) query)"

text \<open>The score the specification gives an item without one: \<open>0\<close>.\<close>

definition priority_or_zero :: "item \<Rightarrow> real" where
  "priority_or_zero i = (case priority_score i of Number p \<Rightarrow> p | _ \<Rightarrow> 0)"

text \<open>
  The window of the specification: the last \<open>N\<close> samples, with \<open>N\<close> read off the
  date range.
\<close>

definition spec_window_size :: "string \<Rightarrow> nat option" where
  "spec_window_size r =
     map_of [(''1d'', 1), (''7d'', 7), (''30d'', 30), (''90d'', 90), (''1y'', 365)] r"

definition last_samples :: "nat \<Rightarrow> 'a list \<Rightarrow> 'a list" where
  "last_samples n xs = drop (length xs - n) xs"

text \<open>
  The known series of the charts: category key and legend label. \<open>series_data\<close> reads
  the array of a key, \<open>css_rgba\<close> writes a \<^verbatim>\<open>#rrggbb\<close> colour as the
  \<^verbatim>\<open>rgba(r, g, b, a)\<close> string of the same colour with opacity \<open>a\<close>.
\<close>

definition known_series :: "(string \<times> string) list" where
  "known_series =
     [(''internal_conflict'', ''Internal Conflict''),
      (''external_conflict'', ''External Conflict''),
      (''economic_indicators'', ''Economic Indicators'')]"

definition series_data :: "string \<Rightarrow> time_series \<Rightarrow> real list" where
  "series_data k ts =
     (if k = ''internal_conflict'' then internal_conflict ts
      else if k = ''external_conflict'' then external_conflict ts
      else economic_indicators ts)"

definition hex_digit :: "char \<Rightarrow> nat" where
  "hex_digit c =
     (case map_of (zip ''0123456789abcdef'' [0, 1, 2, 3, 4, 5, 6, 7, 8, 9, 10, 11, 12, 13, 14, 15]) c of
        Some n \<Rightarrow> n
      | None \<Rightarrow> 0)"

definition decimal_byte :: "nat \<Rightarrow> string" where
  "decimal_byte n =
     (if n < 10 then [''0123456789'' ! n]
      else if n < 100 then [''0123456789'' ! (n div 10), ''0123456789'' ! (n mod 10)]
      else [''0123456789'' ! (n div 100), ''0123456789'' ! (n div 10 mod 10),
            ''0123456789'' ! (n mod 10)])"

definition css_rgba :: "string \<Rightarrow> string \<Rightarrow> string" where
  "css_rgba hex alpha =
     (case hex of
        [h, r1, r2, g1, g2, b1, b2] \<Rightarrow>
          ''rgba('' @ decimal_byte (16 * hex_digit r1 + hex_digit r2) @ '', '' @
          decimal_byte (16 * hex_digit g1 + hex_digit g2) @ '', '' @
          decimal_byte (16 * hex_digit b1 + hex_digit b2) @ '', '' @ alpha @ '')''
      | _ \<Rightarrow> [])"

section \<open>Strings, slices and the sort\<close>

lemma startsWith_iff: "startsWith s q \<longleftrightarrow> (\<exists>ss. s = q @ ss)"
  by (induction s q rule: startsWith.induct) auto

lemma str_includes_iff: "str_includes s q \<longleftrightarrow> (\<exists>ps ss. s = ps @ q @ ss)"
proof (induction s)
  case Nil
  then show ?case by auto
next
  case (Cons c cs)
  show ?case
  proof
    assume "str_includes (c # cs) q"
    then consider "startsWith (c # cs) q" | "str_includes cs q" by auto
    then show "\<exists>ps ss. c # cs = ps @ q @ ss"
    proof cases
      case 1
      then obtain ss where "c # cs = q @ ss" by (auto simp: startsWith_iff)
      then have "c # cs = [] @ q @ ss" by simp
      then show ?thesis by blast
    next
      case 2
      then obtain ps ss where "cs = ps @ q @ ss" using Cons.IH by auto
      then have "c # cs = (c # ps) @ q @ ss" by simp
      then show ?thesis by blast
    qed
  next
    assume "\<exists>ps ss. c # cs = ps @ q @ ss"
    then obtain ps ss where eq: "c # cs = ps @ q @ ss" by auto
    show "str_includes (c # cs) q"
    proof (cases ps)
      case Nil
      then have "startsWith (c # cs) q" using eq by (auto simp: startsWith_iff)
      then show ?thesis by simp
    next
      case (Cons p ps')
      then have "cs = ps' @ q @ ss" using eq by simp
      then have "str_includes cs q" using Cons.IH by blast
      then show ?thesis by simp
    qed
  qed
qed


lemma slice_0_all: "int (length xs) \<le> limit \<Longrightarrow> slice xs 0 limit = xs"
  by (simp add: slice_def Let_def)

lemma set_slice_subset: "set (slice xs a b) \<subseteq> set xs"
  unfolding slice_def Let_def
  by (meson set_take_subset set_drop_subset subset_trans)

lemma mset_sort_insert: "mset (sort_insert c x ys) = add_mset x (mset ys)"
  by (induction ys) auto

lemma mset_array_sort: "mset (array_sort c xs) = mset xs"
  by (induction xs) (auto simp: mset_sort_insert)

lemma set_array_sort: "set (array_sort c xs) = set xs"
  using mset_array_sort[of c xs] by (metis set_mset_mset)

lemma length_array_sort: "length (array_sort c xs) = length xs"
  using mset_array_sort[of c xs] by (metis size_mset)

lemma filter_sort_insert:
  assumes "\<And>y. P x \<Longrightarrow> P y \<Longrightarrow> sort_compare c x y \<le> 0"
  shows "filter P (sort_insert c x ys) = filter P (x # ys)"
  using assms by (induction ys) auto

lemma filter_array_sort:
  assumes "\<And>x y. P x \<Longrightarrow> P y \<Longrightarrow> sort_compare c x y \<le> 0"
  shows "filter P (array_sort c xs) = filter P xs"
proof (induction xs)
  case Nil
  show ?case by simp
next
  case (Cons x xs)
  have "filter P (array_sort c (x # xs)) = filter P (x # array_sort c xs)"
    using assms by (simp add: filter_sort_insert)
  then show ?case using Cons.IH by simp
qed

lemma compare_priority_same:
  "ToNumber (priority_score a) = k \<Longrightarrow> ToNumber (priority_score b) = k \<Longrightarrow>
   sort_compare compare_priority a b \<le> 0"
  by (cases k) (auto simp: sort_compare_def compare_priority_def)

lemma sort_by_priority_stable:
  "filter (\<lambda>i. ToNumber (priority_score i) = k) (sort_by_priority xs) =
   filter (\<lambda>i. ToNumber (priority_score i) = k) xs"
  unfolding sort_by_priority_def
  by (rule filter_array_sort) (rule compare_priority_same)

lemma set_sort_insert: "set (sort_insert c x ys) = insert x (set ys)"
  by (induction ys) auto

lemma descending_sort_insert:
  assumes "\<forall>i \<in> set (x # ys). ToNumber (priority_score i) \<noteq> NaN"
    and "descending_by_priority ys"
  shows "descending_by_priority (sort_insert compare_priority x ys)"
  using assms
proof (induction ys)
  case Nil
  then show ?case by (simp add: descending_by_priority_def)
next
  case (Cons y ys)
  obtain px where px: "ToNumber (priority_score x) = Num px"
    using Cons.prems(1) by (cases "ToNumber (priority_score x)") auto
  obtain py where py: "ToNumber (priority_score y) = Num py"
    using Cons.prems(1) by (cases "ToNumber (priority_score y)") auto
  have cmp: "sort_compare compare_priority x y = py - px"
    by (simp add: sort_compare_def compare_priority_def px py)
  have tail: "descending_by_priority ys"
    using Cons.prems(2) by (simp add: descending_by_priority_def)
  have y_ge: "\<forall>z \<in> set ys. \<exists>pz. ToNumber (priority_score z) = Num pz \<and> pz \<le> py"
  proof
    fix z
    assume z: "z \<in> set ys"
    then have "case (ToNumber (priority_score y), ToNumber (priority_score z)) of
                 (Num pa, Num pb) \<Rightarrow> pb \<le> pa
               | _ \<Rightarrow> False"
      using Cons.prems(2) by (simp add: descending_by_priority_def)
    then show "\<exists>pz. ToNumber (priority_score z) = Num pz \<and> pz \<le> py"
      using py by (cases "ToNumber (priority_score z)") simp_all
  qed
  show ?case
  proof (cases "py - px \<le> 0")
    case True
    have "\<forall>z \<in> set ys. \<exists>pz. ToNumber (priority_score z) = Num pz \<and> pz \<le> px"
      using y_ge True by fastforce
    then show ?thesis
      using True cmp Cons.prems(2) px py
      by (auto simp: descending_by_priority_def split: js_number.splits)
  next
    case False
    have ih: "descending_by_priority (sort_insert compare_priority x ys)"
      using Cons.IH Cons.prems(1) tail by simp
    show ?thesis
      using False cmp ih y_ge px py
      by (auto simp: descending_by_priority_def set_sort_insert split: js_number.splits)
  qed
qed

lemma descending_sort_by_priority:
  "\<forall>i \<in> set xs. ToNumber (priority_score i) \<noteq> NaN \<Longrightarrow>
   descending_by_priority (sort_by_priority xs)"
proof (induction xs)
  case Nil
  then show ?case by (simp add: descending_by_priority_def sort_by_priority_def)
next
  case (Cons x xs)
  have "descending_by_priority (array_sort compare_priority xs)"
    using Cons by (simp add: sort_by_priority_def)
  moreover have "\<forall>i \<in> set (x # array_sort compare_priority xs). ToNumber (priority_score i) \<noteq> NaN"
    using Cons.prems by (simp add: set_array_sort)
  ultimately show ?case
    by (simp add: sort_by_priority_def descending_sort_insert)
qed






lemma filter_throwing_Inr:
  "filter_throwing p xs = Inr ys \<Longrightarrow> ys = filter (\<lambda>x. p x = Inr True) xs"
  by (induction xs arbitrary: ys) (auto split: sum.splits if_splits)

lemma filter_throwing_filter:
  "filter_throwing p xs = Inr ys \<Longrightarrow> filter_throwing p (filter Q xs) = Inr (filter Q ys)"
  by (induction xs arbitrary: ys) (auto split: sum.splits if_splits)

lemma filter_throwing_total:
  "\<forall>x \<in> set xs. \<exists>b. p x = Inr b \<Longrightarrow>
   filter_throwing p xs = Inr (filter (\<lambda>x. p x = Inr True) xs)"
  by (induction xs) (auto split: sum.splits)

lemma field_includes_iff: "field_includes field query = lowercase_contains field query"
  by (cases field) (auto simp: field_includes_def lowercase_contains_def str_includes_iff)

lemma quote_matches_present:
  assumes "content q \<noteq> None" and "analyst_name q \<noteq> None" and "organization q \<noteq> None"
  shows "quote_matches query q =
         Inr (field_includes (content q) query \<or> field_includes (analyst_name q) query \<or>
              field_includes (organization q) query)"
  using assms by (auto simp: quote_matches_def js_or_def member_includes_def field_includes_def)

lemma article_matches_returns:
  "article_matches query i =
     Inr (field_includes (title i) query \<or> field_includes (content i) query)"
  by (auto simp: article_matches_def js_or_def optional_includes_def field_includes_def
      split: option.splits)

lemma NewsFeed_search_effect_returns:
  "NewsFeed_search_effect f xs = Inr (NewsFeed_search_filter f xs)"
proof (cases "searchQuery f = []")
  case True
  then show ?thesis by (simp add: NewsFeed_search_effect_def NewsFeed_search_filter_def)
next
  case False
  let ?q = "toLowerCase (searchQuery f)"
  have "filter_throwing (article_matches ?q) xs =
        Inr (filter (\<lambda>x. article_matches ?q x = Inr True) xs)"
    by (rule filter_throwing_total) (simp add: article_matches_returns)
  then show ?thesis
    using False
    by (simp add: NewsFeed_search_effect_def NewsFeed_search_filter_def Let_def
        article_matches_returns)
qed

lemma NewsFeed_effect_returns: "NewsFeed_effect f items limit = Inr (NewsFeed_apply f items limit)"
  by (simp add: NewsFeed_effect_def NewsFeed_apply_def NewsFeed_search_effect_returns)

lemma category_filter_subset: "set (NewsFeed_category_filter f xs) \<subseteq> set xs"
  by (auto simp: NewsFeed_category_filter_def)

lemmas mock_simps = mockArticles_def mockAnalystCommentary_def mockAnalystQuotes_def
  article_def commentary_def initialFilters_def

lemmas pipeline_simps = NewsFeed_def AnalystQuotes_def NewsFeed_apply_def AnalystQuotes_apply_def
  NewsFeed_category_filter_def AnalystQuotes_category_filter_def NewsFeed_search_filter_def
  AnalystQuotes_search_filter_def sort_by_priority_def sort_compare_def compare_priority_def
  slice_def quote_matches_def js_or_def member_includes_def

section \<open>Ranking\<close>

text \<open>
  Claim C4, as the code has it. The rank step of both list components is
  \<open>sort_by_priority\<close>. On a list whose items all carry a \<^verbatim>\<open>priority_score\<close> that is a
  number (\<^verbatim>\<open>null\<close> counting as 0) its result is in descending order of the score, holds
  the same items, and is stable: for every score \<open>k\<close>, the items with score \<open>k\<close> come
  out in the order in which they went in.
\<close>

theorem rank_descending_stable:
  assumes "\<forall>i \<in> set xs. ToNumber (priority_score i) \<noteq> NaN"
  shows "descending_by_priority (sort_by_priority xs) \<and>
         mset (sort_by_priority xs) = mset xs \<and>
         (\<forall>k. filter (\<lambda>i. ToNumber (priority_score i) = k) (sort_by_priority xs) =
              filter (\<lambda>i. ToNumber (priority_score i) = k) xs)"
proof -
  have "descending_by_priority (sort_by_priority xs)"
    using assms by (rule descending_sort_by_priority)
  moreover have "mset (sort_by_priority xs) = mset xs"
    by (simp add: sort_by_priority_def mset_array_sort)
  ultimately show ?thesis
    by (simp add: sort_by_priority_stable)
qed

text \<open>
  Without that condition the result need not be in descending order: an article without
  \<^verbatim>\<open>priority_score\<close> compares as equal to the article with score 85.5 and stays in front
  of it.
\<close>

theorem rank_descending_counterexample:
  "sort_by_priority [(mockArticles ! 1)\<lparr>priority_score := Undefined\<rparr>, mockArticles ! 0] =
     [(mockArticles ! 1)\<lparr>priority_score := Undefined\<rparr>, mockArticles ! 0] \<and>
   \<not> descending_by_priority
       (sort_by_priority [(mockArticles ! 1)\<lparr>priority_score := Undefined\<rparr>, mockArticles ! 0]) \<and>
   priority_or_zero ((mockArticles ! 1)\<lparr>priority_score := Undefined\<rparr>) <
     priority_or_zero (mockArticles ! 0)"
  by (simp add: mock_simps sort_by_priority_def sort_compare_def compare_priority_def
      descending_by_priority_def priority_or_zero_def)

theorem rank_descending_stable_witness:
  "sort_by_priority
     [mockArticles ! 2, (mockArticles ! 4)\<lparr>priority_score := Null\<rparr>, mockArticles ! 0,
      (mockArticles ! 3)\<lparr>priority_score := Number 72.8\<rparr>] =
     [mockArticles ! 0, mockArticles ! 2, (mockArticles ! 3)\<lparr>priority_score := Number 72.8\<rparr>,
      (mockArticles ! 4)\<lparr>priority_score := Null\<rparr>] \<and>
   descending_by_priority
     (sort_by_priority
        [mockArticles ! 2, (mockArticles ! 4)\<lparr>priority_score := Null\<rparr>, mockArticles ! 0,
         (mockArticles ! 3)\<lparr>priority_score := Number 72.8\<rparr>]) \<and>
   filter (\<lambda>i. ToNumber (priority_score i) = Num 72.8)
     (sort_by_priority
        [mockArticles ! 2, (mockArticles ! 4)\<lparr>priority_score := Null\<rparr>, mockArticles ! 0,
         (mockArticles ! 3)\<lparr>priority_score := Number 72.8\<rparr>]) =
     [mockArticles ! 2, (mockArticles ! 3)\<lparr>priority_score := Number 72.8\<rparr>]"
proof -
  let ?xs = "[mockArticles ! 2, (mockArticles ! 4)\<lparr>priority_score := Null\<rparr>, mockArticles ! 0,
      (mockArticles ! 3)\<lparr>priority_score := Number 72.8\<rparr>]"
  have h: "\<forall>i \<in> set ?xs. ToNumber (priority_score i) \<noteq> NaN"
    by (simp add: mock_simps)
  have v: "sort_by_priority ?xs =
     [mockArticles ! 0, mockArticles ! 2, (mockArticles ! 3)\<lparr>priority_score := Number 72.8\<rparr>,
      (mockArticles ! 4)\<lparr>priority_score := Null\<rparr>]"
    by (simp add: mock_simps sort_by_priority_def sort_compare_def compare_priority_def)
  have e: "filter (\<lambda>i. ToNumber (priority_score i) = Num 72.8) ?xs =
     [mockArticles ! 2, (mockArticles ! 3)\<lparr>priority_score := Number 72.8\<rparr>]"
    by (simp add: mock_simps)
  show ?thesis
    using rank_descending_stable [OF h] v e by metis
qed

section \<open>Idempotence of the article pipeline\<close>



section \<open>The list pipelines read the category and the search query only\<close>

text \<open>
  Claim C10. Two filter objects that agree on \<^verbatim>\<open>category\<close>, \<^verbatim>\<open>searchQuery\<close> and
  \<^verbatim>\<open>dataType\<close> give the same list in \<^verbatim>\<open>NewsFeed\<close> and in \<^verbatim>\<open>AnalystQuotes\<close>, whatever
  their \<^verbatim>\<open>dateRange\<close>, \<^verbatim>\<open>startDate\<close>, \<^verbatim>\<open>endDate\<close> and \<^verbatim>\<open>region\<close> are: on every
  collection and limit, and on the components' own arrays.
\<close>

theorem list_pipelines_ignore_date_and_region:
  assumes "category f = category g" and "searchQuery f = searchQuery g"
    and "dataType f = dataType g"
  shows "NewsFeed_apply f items n = NewsFeed_apply g items n \<and>
         AnalystQuotes_apply f items n = AnalystQuotes_apply g items n \<and>
         NewsFeed f limit = NewsFeed g limit \<and>
         AnalystQuotes f limit = AnalystQuotes g limit"
  using assms
  by (simp add: NewsFeed_def AnalystQuotes_def NewsFeed_apply_def AnalystQuotes_apply_def
      NewsFeed_category_filter_def NewsFeed_search_filter_def
      AnalystQuotes_category_filter_def AnalystQuotes_search_filter_def)

theorem list_pipelines_ignore_date_and_region_witness:
  "NewsFeed initialFilters (Some 15) =
     NewsFeed (initialFilters\<lparr>dateRange := ''custom'', region := ''europe'',
                 startDate := Some ''2023-06-01'', endDate := Some ''2023-06-10''\<rparr>) (Some 15) \<and>
   AnalystQuotes initialFilters None =
     AnalystQuotes (initialFilters\<lparr>dateRange := ''custom'', region := ''europe'',
                 startDate := Some ''2023-06-01'', endDate := Some ''2023-06-10''\<rparr>) None"
  using list_pipelines_ignore_date_and_region
    [of initialFilters
        "initialFilters\<lparr>dateRange := ''custom'', region := ''europe'',
                 startDate := Some ''2023-06-01'', endDate := Some ''2023-06-10''\<rparr>"
        mockArticles 15 "Some 15"]
    list_pipelines_ignore_date_and_region
    [of initialFilters
        "initialFilters\<lparr>dateRange := ''custom'', region := ''europe'',
                 startDate := Some ''2023-06-01'', endDate := Some ''2023-06-10''\<rparr>"
        mockArticles 15 None]
  by (simp add: initialFilters_def)

section \<open>The category filter\<close>

text \<open>
  Claim C1, as the code has it. With a category that is set and is not \<^verbatim>\<open>'all'\<close>,
  \<^verbatim>\<open>NewsFeed\<close> keeps exactly the items whose primary or secondary category is that
  category, and \<^verbatim>\<open>AnalystQuotes\<close> keeps exactly the quotes whose primary category is
  that category; with \<^verbatim>\<open>'all'\<close> both keep every item. An item with secondary category
  \<^verbatim>\<open>economic_indicators\<close> and primary category \<^verbatim>\<open>external_conflict\<close> passes
  \<^verbatim>\<open>NewsFeed\<close>'s filter for \<^verbatim>\<open>economic_indicators\<close>, and is in \<^verbatim>\<open>NewsFeed\<close>'s result when
  there is no search query and the limit is not smaller than the number of items kept.
\<close>

theorem category_filter_union:
  "(category f \<noteq> [] \<and> category f \<noteq> ''all'' \<longrightarrow>
      NewsFeed_category_filter f xs =
        filter (\<lambda>i. primary_category i = Some (category f) \<or>
                     secondary_category i = Some (category f)) xs \<and>
      AnalystQuotes_category_filter f xs =
        filter (\<lambda>i. primary_category i = Some (category f)) xs) \<and>
   (category f = ''all'' \<longrightarrow>
      NewsFeed_category_filter f xs = xs \<and> AnalystQuotes_category_filter f xs = xs) \<and>
   (category f = ''economic_indicators'' \<and> i \<in> set xs \<and>
    secondary_category i = Some ''economic_indicators'' \<and>
    primary_category i = Some ''external_conflict'' \<longrightarrow>
      i \<in> set (NewsFeed_category_filter f xs) \<and>
      (searchQuery f = [] \<and> int (length (NewsFeed_category_filter f xs)) \<le> limit \<longrightarrow>
         i \<in> set (NewsFeed_apply f xs limit)))"
proof -
  have "i \<in> set (NewsFeed_apply f xs limit)"
    if "i \<in> set (NewsFeed_category_filter f xs)" and "searchQuery f = []"
      and "int (length (NewsFeed_category_filter f xs)) \<le> limit"
  proof -
    have "NewsFeed_apply f xs limit = sort_by_priority (NewsFeed_category_filter f xs)"
      using that(2,3)
      by (simp add: NewsFeed_apply_def NewsFeed_search_filter_def slice_0_all
          sort_by_priority_def length_array_sort)
    then show ?thesis using that(1) by (simp add: sort_by_priority_def set_array_sort)
  qed
  moreover have "i \<in> set (NewsFeed_category_filter f xs)"
    if "category f = ''economic_indicators''" and "i \<in> set xs"
      and "secondary_category i = Some ''economic_indicators''"
    using that by (simp add: NewsFeed_category_filter_def)
  ultimately show ?thesis
    by (auto simp: NewsFeed_category_filter_def AnalystQuotes_category_filter_def)
qed

text \<open>
  The union match does not hold in \<^verbatim>\<open>AnalystQuotes\<close>: the first article, whose secondary
  category is \<^verbatim>\<open>economic_indicators\<close>, is dropped there and kept by \<^verbatim>\<open>NewsFeed\<close>.
\<close>

theorem category_filter_union_counterexample:
  "AnalystQuotes_category_filter (initialFilters\<lparr>category := ''economic_indicators''\<rparr>)
     [mockArticles ! 0] = [] \<and>
   primary_category (mockArticles ! 0) = Some ''external_conflict'' \<and>
   secondary_category (mockArticles ! 0) = Some ''economic_indicators'' \<and>
   NewsFeed_category_filter (initialFilters\<lparr>category := ''economic_indicators''\<rparr>)
     [mockArticles ! 0] = [mockArticles ! 0]"
  by (simp add: mock_simps AnalystQuotes_category_filter_def NewsFeed_category_filter_def)

theorem category_filter_union_witness:
  "NewsFeed_category_filter (initialFilters\<lparr>category := ''economic_indicators''\<rparr>) mockArticles =
     [mockArticles ! 0, mockArticles ! 2] \<and>
   AnalystQuotes_category_filter (initialFilters\<lparr>category := ''economic_indicators''\<rparr>) mockArticles =
     [mockArticles ! 2] \<and>
   NewsFeed_category_filter initialFilters mockArticles = mockArticles \<and>
   mockArticles ! 0 \<in>
     set (NewsFeed_apply (initialFilters\<lparr>category := ''economic_indicators''\<rparr>) mockArticles 10)"
proof -
  let ?f = "initialFilters\<lparr>category := ''economic_indicators''\<rparr>"
  have c: "category ?f \<noteq> [] \<and> category ?f \<noteq> ''all''" "category ?f = ''economic_indicators''"
    "searchQuery ?f = []" "category initialFilters = ''all''"
    by (simp_all add: initialFilters_def)
  have m: "mockArticles ! 0 \<in> set mockArticles"
    "secondary_category (mockArticles ! 0) = Some ''economic_indicators''"
    "primary_category (mockArticles ! 0) = Some ''external_conflict''"
    by (simp_all add: mock_simps)
  have e: "filter (\<lambda>i. primary_category i = Some (category ?f) \<or>
                     secondary_category i = Some (category ?f)) mockArticles =
           [mockArticles ! 0, mockArticles ! 2]"
    "filter (\<lambda>i. primary_category i = Some (category ?f)) mockArticles = [mockArticles ! 2]"
    by (simp_all add: mock_simps)
  have l: "int (length [mockArticles ! 0, mockArticles ! 2]) \<le> 10" by simp
  show ?thesis
    using category_filter_union [of ?f mockArticles "mockArticles ! 0" 10]
      category_filter_union [of initialFilters mockArticles "mockArticles ! 0" 10]
      c m e l
    by simp
qed

section \<open>The search filter\<close>

text \<open>
  Claim C2, as the code has it, for a query and items whose text is of 7-bit characters.
  With a non-empty query, \<^verbatim>\<open>NewsFeed\<close> keeps exactly the items whose lower-cased title or
  lower-cased content contains the lower-cased query (a missing field contains nothing;
  the analyst name and the organization are not read), and \<^verbatim>\<open>AnalystQuotes\<close>, on quotes
  that carry content, analyst name and organization, keeps exactly those with the
  lower-cased query in one of the three, lower-cased.
\<close>

theorem search_filter_substring:
  assumes "searchQuery f \<noteq> []" and "ascii (searchQuery f)" and "\<forall>i \<in> set xs. ascii_item i"
  shows "NewsFeed_search_filter f xs =
           filter (\<lambda>i. lowercase_contains (title i) (toLowerCase (searchQuery f)) \<or>
                        lowercase_contains (content i) (toLowerCase (searchQuery f))) xs \<and>
         ((\<forall>x \<in> set xs. content x \<noteq> None \<and> analyst_name x \<noteq> None \<and> organization x \<noteq> None) \<longrightarrow>
          AnalystQuotes_search_filter f xs =
            Inr (filter (\<lambda>i. lowercase_contains (content i) (toLowerCase (searchQuery f)) \<or>
                             lowercase_contains (analyst_name i) (toLowerCase (searchQuery f)) \<or>
                             lowercase_contains (organization i) (toLowerCase (searchQuery f))) xs))"
proof (intro conjI impI)
  show "NewsFeed_search_filter f xs =
           filter (\<lambda>i. lowercase_contains (title i) (toLowerCase (searchQuery f)) \<or>
                        lowercase_contains (content i) (toLowerCase (searchQuery f))) xs"
    using assms(1) by (simp add: NewsFeed_search_filter_def Let_def field_includes_iff)
next
  let ?q = "toLowerCase (searchQuery f)"
  assume p: "\<forall>x \<in> set xs. content x \<noteq> None \<and> analyst_name x \<noteq> None \<and> organization x \<noteq> None"
  then have m: "\<forall>x \<in> set xs. quote_matches ?q x =
      Inr (lowercase_contains (content x) ?q \<or> lowercase_contains (analyst_name x) ?q \<or>
           lowercase_contains (organization x) ?q)"
    using quote_matches_present by (simp add: field_includes_iff del: not_None_eq)
  then have "\<forall>x \<in> set xs. \<exists>b. quote_matches ?q x = Inr b" by blast
  then have "filter_throwing (quote_matches ?q) xs =
             Inr (filter (\<lambda>x. quote_matches ?q x = Inr True) xs)"
    by (rule filter_throwing_total)
  moreover have "filter (\<lambda>x. quote_matches ?q x = Inr True) xs =
      filter (\<lambda>i. lowercase_contains (content i) ?q \<or> lowercase_contains (analyst_name i) ?q \<or>
                   lowercase_contains (organization i) ?q) xs"
    using m by (intro filter_cong) auto
  ultimately show "AnalystQuotes_search_filter f xs =
            Inr (filter (\<lambda>i. lowercase_contains (content i) ?q \<or>
                             lowercase_contains (analyst_name i) ?q \<or>
                             lowercase_contains (organization i) ?q) xs)"
    using assms(1) by (simp add: AnalystQuotes_search_filter_def)
qed

text \<open>
  Against the searchable text of the specification: \<^verbatim>\<open>NewsFeed\<close> keeps the first
  article for the query \<^verbatim>\<open>announced\<close>, which occurs in its content and not in its title,
  and drops the commentary of Ray Dalio for the query \<^verbatim>\<open>Dalio\<close>.
\<close>

text \<open>
  Against the searchable text of the specification: \<^verbatim>\<open>NewsFeed\<close> keeps the first
  article for the query \<^verbatim>\<open>announced\<close>, which occurs in its content and not in its title,
  and drops the commentary of Ray Dalio for the query \<^verbatim>\<open>Dalio\<close>.
\<close>

theorem search_filter_counterexample:
  "NewsFeed_search_filter (initialFilters\<lparr>searchQuery := ''announced''\<rparr>) [mockArticles ! 0] =
     [mockArticles ! 0] \<and>
   \<not> spec_search_match (toLowerCase ''announced'') (mockArticles ! 0) \<and>
   NewsFeed_search_filter (initialFilters\<lparr>searchQuery := ''Dalio'', dataType := Some ''analyst''\<rparr>)
     mockAnalystCommentary = [] \<and>
   spec_search_match (toLowerCase ''Dalio'') (mockAnalystCommentary ! 0)"
  by code_simp

theorem search_filter_substring_witness:
  "NewsFeed_search_filter (initialFilters\<lparr>searchQuery := ''tariffs''\<rparr>) mockArticles =
     [mockArticles ! 0] \<and>
   AnalystQuotes_search_filter (initialFilters\<lparr>searchQuery := ''Dalio''\<rparr>) mockAnalystQuotes =
     Inr [mockAnalystQuotes ! 0, mockAnalystQuotes ! 3, mockAnalystQuotes ! 6]"
proof -
  let ?f = "initialFilters\<lparr>searchQuery := ''tariffs''\<rparr>"
  let ?g = "initialFilters\<lparr>searchQuery := ''Dalio''\<rparr>"
  have q: "searchQuery ?f \<noteq> []" "searchQuery ?g \<noteq> []" by (simp_all add: initialFilters_def)
  have a: "ascii (searchQuery ?f)" "ascii (searchQuery ?g)" by code_simp+
  have ai: "\<forall>i \<in> set mockArticles. ascii_item i" by code_simp
  have aq: "\<forall>i \<in> set mockAnalystQuotes. ascii_item i" by code_simp
  have p: "\<forall>x \<in> set mockAnalystQuotes.
             content x \<noteq> None \<and> analyst_name x \<noteq> None \<and> organization x \<noteq> None"
    by code_simp
  have "filter (\<lambda>i. field_includes (title i) (toLowerCase ''tariffs'') \<or>
                      field_includes (content i) (toLowerCase ''tariffs'')) mockArticles =
        [mockArticles ! 0]"
    by code_simp
  then have e1: "filter (\<lambda>i. lowercase_contains (title i) (toLowerCase (searchQuery ?f)) \<or>
                        lowercase_contains (content i) (toLowerCase (searchQuery ?f))) mockArticles =
            [mockArticles ! 0]"
    by (simp add: field_includes_iff initialFilters_def)
  have "filter (\<lambda>i. field_includes (content i) (toLowerCase ''Dalio'') \<or>
                      field_includes (analyst_name i) (toLowerCase ''Dalio'') \<or>
                      field_includes (organization i) (toLowerCase ''Dalio'')) mockAnalystQuotes =
        [mockAnalystQuotes ! 0, mockAnalystQuotes ! 3, mockAnalystQuotes ! 6]"
    by code_simp
  then have e2: "filter (\<lambda>i. lowercase_contains (content i) (toLowerCase (searchQuery ?g)) \<or>
                        lowercase_contains (analyst_name i) (toLowerCase (searchQuery ?g)) \<or>
                        lowercase_contains (organization i) (toLowerCase (searchQuery ?g)))
              mockAnalystQuotes =
            [mockAnalystQuotes ! 0, mockAnalystQuotes ! 3, mockAnalystQuotes ! 6]"
    by (simp add: field_includes_iff initialFilters_def)
  show ?thesis
    using search_filter_substring [OF q(1) a(1) ai]
      search_filter_substring [OF q(2) a(2) aq] p
    unfolding e1 e2 by blast
qed

section \<open>The result for all categories and for one\<close>

text \<open>
  Claim C5, as the code has it. Let the filters have category \<^verbatim>\<open>'all'\<close> and let the
  limit \<open>N\<close> be at least the number of items that pass the search filter, so that the run
  for all categories is not cut. Then every item in the result for a category \<open>c\<close>, the
  other fields unchanged, is in the result for \<^verbatim>\<open>'all'\<close>: in \<^verbatim>\<open>NewsFeed\<close>, and in
  \<^verbatim>\<open>AnalystQuotes\<close> when the run for all categories returns.
\<close>

theorem all_superset_when_untruncated:
  assumes "category f = ''all''"
  shows "(int (length (NewsFeed_search_filter f items)) \<le> N \<longrightarrow>
            set (NewsFeed_apply (f\<lparr>category := c\<rparr>) items N) \<subseteq> set (NewsFeed_apply f items N)) \<and>
         (\<forall>ms. AnalystQuotes_search_filter f items = Inr ms \<and> int (length ms) \<le> N \<longrightarrow>
            (\<exists>rs. AnalystQuotes_apply (f\<lparr>category := c\<rparr>) items N = Inr rs \<and>
                  AnalystQuotes_apply f items N = Inr (sort_by_priority ms) \<and>
                  set rs \<subseteq> set (sort_by_priority ms)))"
proof (intro conjI impI allI)
  let ?g = "f\<lparr>category := c\<rparr>"
  assume n: "int (length (NewsFeed_search_filter f items)) \<le> N"
  have all: "NewsFeed_apply f items N = sort_by_priority (NewsFeed_search_filter f items)"
    using assms n
    by (simp add: NewsFeed_apply_def NewsFeed_category_filter_def slice_0_all
        sort_by_priority_def length_array_sort)
  have "set (NewsFeed_apply ?g items N) \<subseteq>
        set (sort_by_priority (NewsFeed_search_filter ?g (NewsFeed_category_filter ?g items)))"
    unfolding NewsFeed_apply_def by (rule set_slice_subset)
  also have "\<dots> = set (NewsFeed_search_filter ?g (NewsFeed_category_filter ?g items))"
    by (simp add: sort_by_priority_def set_array_sort)
  also have "\<dots> \<subseteq> set (NewsFeed_search_filter f items)"
    using category_filter_subset[of ?g items]
    by (auto simp: NewsFeed_search_filter_def Let_def)
  also have "\<dots> = set (NewsFeed_apply f items N)"
    by (simp add: all sort_by_priority_def set_array_sort)
  finally show "set (NewsFeed_apply ?g items N) \<subseteq> set (NewsFeed_apply f items N)" .
next
  let ?g = "f\<lparr>category := c\<rparr>"
  fix ms
  assume a: "AnalystQuotes_search_filter f items = Inr ms \<and> int (length ms) \<le> N"
  have all: "AnalystQuotes_apply f items N = Inr (sort_by_priority ms)"
    using assms a
    by (simp add: AnalystQuotes_apply_def AnalystQuotes_category_filter_def slice_0_all
        sort_by_priority_def length_array_sort)
  let ?Q = "\<lambda>quote. primary_category quote = Some c"
  obtain ms' where ms': "AnalystQuotes_search_filter ?g (AnalystQuotes_category_filter ?g items) = Inr ms'"
    and sub: "set ms' \<subseteq> set ms"
  proof (cases "c \<noteq> [] \<and> c \<noteq> ''all''")
    case True
    show ?thesis
    proof (cases "searchQuery f = []")
      case True
      then show ?thesis using a that
        by (auto simp: AnalystQuotes_search_filter_def AnalystQuotes_category_filter_def)
    next
      case False
      then have "filter_throwing (quote_matches (toLowerCase (searchQuery f))) items = Inr ms"
        using a by (simp add: AnalystQuotes_search_filter_def)
      then have "filter_throwing (quote_matches (toLowerCase (searchQuery f))) (filter ?Q items)
                 = Inr (filter ?Q ms)"
        by (rule filter_throwing_filter)
      then show ?thesis using that[of "filter ?Q ms"] True False
        by (auto simp: AnalystQuotes_search_filter_def AnalystQuotes_category_filter_def)
    qed
  next
    case False
    then have "AnalystQuotes_search_filter ?g (AnalystQuotes_category_filter ?g items) = Inr ms"
      using a by (auto simp: AnalystQuotes_search_filter_def AnalystQuotes_category_filter_def)
    then show ?thesis using that by blast
  qed
  have "AnalystQuotes_apply ?g items N = Inr (slice (sort_by_priority ms') 0 N)"
    by (simp add: AnalystQuotes_apply_def ms')
  moreover have "set (slice (sort_by_priority ms') 0 N) \<subseteq> set (sort_by_priority ms)"
    using set_slice_subset[of "sort_by_priority ms'" 0 N] sub
    by (auto simp: sort_by_priority_def set_array_sort)
  ultimately show "\<exists>rs. AnalystQuotes_apply ?g items N = Inr rs \<and>
                  AnalystQuotes_apply f items N = Inr (sort_by_priority ms) \<and>
                  set rs \<subseteq> set (sort_by_priority ms)"
    using all by blast
qed

text \<open>
  With the limit in force the inclusion fails, on the components' own arrays:
  \<^verbatim>\<open>AnalystQuotes\<close> with its default limit 5 shows quotes 1, 4, 2, 7, 5 for \<^verbatim>\<open>'all'\<close> and
  quotes 3, 6 for \<^verbatim>\<open>internal_conflict\<close>; \<^verbatim>\<open>NewsFeed\<close> with limit 1 shows article 1 for
  \<^verbatim>\<open>'all'\<close> and article 2 for \<^verbatim>\<open>internal_conflict\<close>.
\<close>

theorem all_superset_counterexample:
  "AnalystQuotes initialFilters None =
     Inr [mockAnalystQuotes ! 0, mockAnalystQuotes ! 3, mockAnalystQuotes ! 1,
          mockAnalystQuotes ! 6, mockAnalystQuotes ! 4] \<and>
   AnalystQuotes (initialFilters\<lparr>category := ''internal_conflict''\<rparr>) None =
     Inr [mockAnalystQuotes ! 2, mockAnalystQuotes ! 5] \<and>
   mockAnalystQuotes ! 2 \<notin>
     set [mockAnalystQuotes ! 0, mockAnalystQuotes ! 3, mockAnalystQuotes ! 1,
          mockAnalystQuotes ! 6, mockAnalystQuotes ! 4] \<and>
   NewsFeed_apply initialFilters mockArticles 1 = [mockArticles ! 0] \<and>
   NewsFeed_apply (initialFilters\<lparr>category := ''internal_conflict''\<rparr>) mockArticles 1 =
     [mockArticles ! 1] \<and>
   mockArticles ! 1 \<notin> set [mockArticles ! 0]"
  by (simp add: mock_simps pipeline_simps)

theorem all_superset_when_untruncated_witness:
  "set (NewsFeed_apply (initialFilters\<lparr>category := ''internal_conflict''\<rparr>) mockArticles 5)
     \<subseteq> set (NewsFeed_apply initialFilters mockArticles 5) \<and>
   AnalystQuotes_apply initialFilters mockAnalystQuotes 7 =
     Inr (sort_by_priority mockAnalystQuotes) \<and>
   AnalystQuotes_apply (initialFilters\<lparr>category := ''internal_conflict''\<rparr>) mockAnalystQuotes 7 =
     Inr [mockAnalystQuotes ! 2, mockAnalystQuotes ! 5]"
proof -
  have c: "category initialFilters = ''all''" by (simp add: initialFilters_def)
  have n: "int (length (NewsFeed_search_filter initialFilters mockArticles)) \<le> 5"
    by (simp add: mock_simps NewsFeed_search_filter_def)
  have q: "AnalystQuotes_search_filter initialFilters mockAnalystQuotes = Inr mockAnalystQuotes \<and>
           int (length mockAnalystQuotes) \<le> 7"
    by (simp add: mock_simps AnalystQuotes_search_filter_def)
  have v: "AnalystQuotes_apply (initialFilters\<lparr>category := ''internal_conflict''\<rparr>)
             mockAnalystQuotes 7 = Inr [mockAnalystQuotes ! 2, mockAnalystQuotes ! 5]"
    by (simp add: mock_simps pipeline_simps)
  show ?thesis
    using all_superset_when_untruncated [OF c, of mockArticles 5 "''internal_conflict''"]
      all_superset_when_untruncated [OF c, of mockAnalystQuotes 7 "''internal_conflict''"]
      n q v
    by blast
qed

section \<open>Missing fields\<close>

text \<open>
  Claim C7, as the code has it. \<^verbatim>\<open>NewsFeed\<close>'s effect never throws: with the exceptions
  written out it returns, and what it returns is \<open>NewsFeed_apply\<close>. An item without
  title and content is in no result for a non-empty query. An item whose
  \<^verbatim>\<open>priority_score\<close> is \<^verbatim>\<open>undefined\<close> or absent compares as equal to every other item
  (the comparator gives \<^verbatim>\<open>NaN\<close>, which the sort reads as 0), so next to one other item
  it stays where it was; an item whose \<^verbatim>\<open>priority_score\<close> is \<^verbatim>\<open>null\<close> compares as an item
  with score 0 does. When no item passes the filters the result is the empty list.
  \<^verbatim>\<open>AnalystQuotes\<close> returns a list when there is no query or when every quote carries
  content, analyst name and organization.
\<close>

theorem pipelines_on_missing_fields:
  "NewsFeed_effect f items limit = Inr (NewsFeed_apply f items limit) \<and>
   (searchQuery f \<noteq> [] \<and> title i = None \<and> content i = None \<longrightarrow>
      i \<notin> set (NewsFeed_apply f items limit)) \<and>
   (priority_score u = Undefined \<longrightarrow>
      sort_compare compare_priority u x = 0 \<and> sort_compare compare_priority x u = 0 \<and>
      sort_by_priority [u, x] = [u, x] \<and> sort_by_priority [x, u] = [x, u]) \<and>
   (priority_score n = Null \<longrightarrow>
      sort_compare compare_priority n x =
        sort_compare compare_priority (n\<lparr>priority_score := Number 0\<rparr>) x \<and>
      sort_compare compare_priority x n =
        sort_compare compare_priority x (n\<lparr>priority_score := Number 0\<rparr>)) \<and>
   (NewsFeed_search_filter f (NewsFeed_category_filter f items) = [] \<longrightarrow>
      NewsFeed_apply f items limit = []) \<and>
   (AnalystQuotes_search_filter f (AnalystQuotes_category_filter f items) = Inr [] \<longrightarrow>
      AnalystQuotes_apply f items limit = Inr []) \<and>
   (searchQuery f = [] \<or>
    (\<forall>q \<in> set items. content q \<noteq> None \<and> analyst_name q \<noteq> None \<and> organization q \<noteq> None) \<longrightarrow>
      (\<exists>r. AnalystQuotes_apply f items limit = Inr r))"
proof (intro conjI impI)
  show "NewsFeed_effect f items limit = Inr (NewsFeed_apply f items limit)"
    by (rule NewsFeed_effect_returns)
next
  assume a: "searchQuery f \<noteq> [] \<and> title i = None \<and> content i = None"
  have "set (NewsFeed_apply f items limit) \<subseteq>
        set (NewsFeed_search_filter f (NewsFeed_category_filter f items))"
    using set_slice_subset[of "sort_by_priority (NewsFeed_search_filter f (NewsFeed_category_filter f items))" 0 limit]
    by (simp add: NewsFeed_apply_def sort_by_priority_def set_array_sort)
  moreover have "i \<notin> set (NewsFeed_search_filter f (NewsFeed_category_filter f items))"
    using a by (simp add: NewsFeed_search_filter_def Let_def field_includes_def)
  ultimately show "i \<notin> set (NewsFeed_apply f items limit)" by blast
next
  assume u: "priority_score u = Undefined"
  show "sort_compare compare_priority u x = 0" "sort_compare compare_priority x u = 0"
    "sort_by_priority [u, x] = [u, x]" "sort_by_priority [x, u] = [x, u]"
    using u
    by (auto simp: sort_by_priority_def sort_compare_def compare_priority_def
        split: js_number.splits)
next
  assume n: "priority_score n = Null"
  show "sort_compare compare_priority n x =
        sort_compare compare_priority (n\<lparr>priority_score := Number 0\<rparr>) x"
    "sort_compare compare_priority x n =
        sort_compare compare_priority x (n\<lparr>priority_score := Number 0\<rparr>)"
    using n by (simp_all add: sort_compare_def compare_priority_def)
next
  assume "NewsFeed_search_filter f (NewsFeed_category_filter f items) = []"
  then show "NewsFeed_apply f items limit = []"
    by (simp add: NewsFeed_apply_def sort_by_priority_def slice_def)
next
  assume "AnalystQuotes_search_filter f (AnalystQuotes_category_filter f items) = Inr []"
  then show "AnalystQuotes_apply f items limit = Inr []"
    by (simp add: AnalystQuotes_apply_def sort_by_priority_def slice_def)
next
  let ?c = "AnalystQuotes_category_filter f items"
  assume a: "searchQuery f = [] \<or>
    (\<forall>q \<in> set items. content q \<noteq> None \<and> analyst_name q \<noteq> None \<and> organization q \<noteq> None)"
  have "\<exists>ms. AnalystQuotes_search_filter f ?c = Inr ms"
  proof (cases "searchQuery f = []")
    case True
    then show ?thesis by (simp add: AnalystQuotes_search_filter_def)
  next
    case False
    then have "\<forall>q \<in> set items. content q \<noteq> None \<and> analyst_name q \<noteq> None \<and> organization q \<noteq> None"
      using a by blast
    moreover have "set ?c \<subseteq> set items"
      by (auto simp: AnalystQuotes_category_filter_def)
    ultimately have "\<forall>q \<in> set ?c. \<exists>b. quote_matches (toLowerCase (searchQuery f)) q = Inr b"
      using quote_matches_present by blast
    then show ?thesis
      using False filter_throwing_total[of ?c "quote_matches (toLowerCase (searchQuery f))"]
      by (simp add: AnalystQuotes_search_filter_def)
  qed
  then show "\<exists>r. AnalystQuotes_apply f items limit = Inr r"
    by (auto simp: AnalystQuotes_apply_def)
qed

text \<open>
  An article without score stays in front of an article with score 85.5, where a score
  of 0 would put it behind; and \<^verbatim>\<open>AnalystQuotes\<close> throws on a quote without content
  when a query is set.
\<close>

theorem pipelines_on_missing_fields_counterexample:
  "NewsFeed_apply initialFilters
     [(mockArticles ! 1)\<lparr>priority_score := Undefined\<rparr>, mockArticles ! 0] 10 =
     [(mockArticles ! 1)\<lparr>priority_score := Undefined\<rparr>, mockArticles ! 0] \<and>
   priority_or_zero ((mockArticles ! 1)\<lparr>priority_score := Undefined\<rparr>) <
     priority_or_zero (mockArticles ! 0) \<and>
   AnalystQuotes_apply (initialFilters\<lparr>searchQuery := ''debt''\<rparr>)
     [(mockAnalystQuotes ! 0)\<lparr>content := None\<rparr>] 5 = Inl TypeError"
  by (simp add: mock_simps pipeline_simps priority_or_zero_def)

theorem pipelines_on_missing_fields_witness:
  "NewsFeed_effect (initialFilters\<lparr>searchQuery := ''trade''\<rparr>)
     [(mockArticles ! 0)\<lparr>title := None, content := None\<rparr>, (mockArticles ! 3)\<lparr>title := None\<rparr>,
      (mockArticles ! 0)\<lparr>content := None\<rparr>] 10 =
     Inr (NewsFeed_apply (initialFilters\<lparr>searchQuery := ''trade''\<rparr>)
     [(mockArticles ! 0)\<lparr>title := None, content := None\<rparr>, (mockArticles ! 3)\<lparr>title := None\<rparr>,
      (mockArticles ! 0)\<lparr>content := None\<rparr>] 10) \<and>
   (mockArticles ! 0)\<lparr>title := None, content := None\<rparr> \<notin>
     set (NewsFeed_apply (initialFilters\<lparr>searchQuery := ''trade''\<rparr>)
     [(mockArticles ! 0)\<lparr>title := None, content := None\<rparr>, (mockArticles ! 3)\<lparr>title := None\<rparr>,
      (mockArticles ! 0)\<lparr>content := None\<rparr>] 10) \<and>
   sort_by_priority [(mockArticles ! 1)\<lparr>priority_score := Undefined\<rparr>, mockArticles ! 0] =
     [(mockArticles ! 1)\<lparr>priority_score := Undefined\<rparr>, mockArticles ! 0] \<and>
   sort_by_priority [mockArticles ! 0, (mockArticles ! 1)\<lparr>priority_score := Undefined\<rparr>] =
     [mockArticles ! 0, (mockArticles ! 1)\<lparr>priority_score := Undefined\<rparr>] \<and>
   sort_compare compare_priority ((mockArticles ! 1)\<lparr>priority_score := Null\<rparr>) (mockArticles ! 0) =
     sort_compare compare_priority ((mockArticles ! 1)\<lparr>priority_score := Number 0\<rparr>) (mockArticles ! 0) \<and>
   NewsFeed_apply (initialFilters\<lparr>category := ''economic_indicators''\<rparr>) [mockArticles ! 1] 10 = [] \<and>
   AnalystQuotes_apply (initialFilters\<lparr>category := ''external_conflict''\<rparr>) [mockAnalystQuotes ! 1] 5 =
     Inr []"
proof -
  let ?i = "(mockArticles ! 0)\<lparr>title := None, content := None\<rparr>"
  let ?xs = "[?i, (mockArticles ! 3)\<lparr>title := None\<rparr>, (mockArticles ! 0)\<lparr>content := None\<rparr>]"
  let ?u = "(mockArticles ! 1)\<lparr>priority_score := Undefined\<rparr>"
  let ?n = "(mockArticles ! 1)\<lparr>priority_score := Null\<rparr>"
  let ?t = "initialFilters\<lparr>searchQuery := ''trade''\<rparr>"
  have a: "searchQuery ?t \<noteq> [] \<and> title ?i = None \<and> content ?i = None"
    by (simp add: initialFilters_def)
  have u: "priority_score ?u = Undefined" by simp
  have n: "priority_score ?n = Null" by simp
  have n0: "?n\<lparr>priority_score := Number 0\<rparr> = (mockArticles ! 1)\<lparr>priority_score := Number 0\<rparr>"
    by simp
  let ?f = "initialFilters\<lparr>category := ''economic_indicators''\<rparr>"
  let ?g = "initialFilters\<lparr>category := ''external_conflict''\<rparr>"
  have e: "NewsFeed_search_filter ?f (NewsFeed_category_filter ?f [mockArticles ! 1]) = []"
    by (simp add: mock_simps NewsFeed_search_filter_def NewsFeed_category_filter_def)
  have q: "AnalystQuotes_search_filter ?g (AnalystQuotes_category_filter ?g [mockAnalystQuotes ! 1]) = Inr []"
    by (simp add: mock_simps AnalystQuotes_search_filter_def AnalystQuotes_category_filter_def)
  show ?thesis
    using pipelines_on_missing_fields [of ?t ?xs 10 ?i ?u "mockArticles ! 0" ?n]
      pipelines_on_missing_fields [of ?f "[mockArticles ! 1]" 10 ?i ?u "mockArticles ! 0" ?n]
      pipelines_on_missing_fields [of ?g "[mockAnalystQuotes ! 1]" 5 ?i ?u "mockArticles ! 0" ?n]
      a u n e q
    unfolding n0 by blast
qed

section \<open>The date window of the charts\<close>

lemma length_slice_to_end:
  "0 \<le> a \<Longrightarrow> length (slice xs a (int (length xs))) = length xs - nat a"
  by (simp add: slice_def Let_def)

lemma window_arith:
  "(n::nat) - nat (max 0 (int n - 2)) = min 2 n"
  "(n::nat) - nat (max 0 (int n - 8)) = min 8 n"
  "(n::nat) - nat (max 0 (int n - 31)) = min 31 n"
  by linarith+

text \<open>
  The number of samples the date-range step keeps: two for \<^verbatim>\<open>'1d'\<close>, eight for
  \<^verbatim>\<open>'7d'\<close>, thirty-one for \<^verbatim>\<open>'30d'\<close> (fewer when the series is shorter), and the whole
  series for every other range.
\<close>

lemma date_window_length:
  "length (dates (filteredTimeSeries f ts)) =
     (if dateRange f = ''1d'' then min 2 (length (dates ts))
      else if dateRange f = ''7d'' then min 8 (length (dates ts))
      else if dateRange f = ''30d'' then min 31 (length (dates ts))
      else length (dates ts))"
proof -
  let ?n = "length (dates ts)"
  let ?s = "dateRange_startIndex f (int ?n - 1)"
  have s0: "0 \<le> ?s" by (simp add: dateRange_startIndex_def)
  have "length (dates (filteredTimeSeries f ts)) = ?n - nat ?s"
    using length_slice_to_end[OF s0, of "dates ts"]
    by (simp add: filteredTimeSeries_def Let_def)
  moreover have "?n - nat ?s =
     (if dateRange f = ''1d'' then min 2 ?n
      else if dateRange f = ''7d'' then min 8 ?n
      else if dateRange f = ''30d'' then min 31 ?n
      else ?n)"
    by (simp add: dateRange_startIndex_def window_arith)
  ultimately show ?thesis by simp
qed

text \<open>
  Claim C3 says that the step keeps the last \<open>N\<close> samples, with \<open>N\<close> = 1, 7, 30, 90,
  365. The code keeps one sample more: \<^verbatim>\<open>startIndex = endIndex - 7\<close> and
  \<^verbatim>\<open>slice(startIndex, endIndex + 1)\<close> leave eight samples for \<^verbatim>\<open>'7d'\<close>. On the chart's own
  series of 32 days, \<^verbatim>\<open>'7d'\<close> gives the eight days from 2023-06-08 where the last seven
  start at 2023-06-09, \<^verbatim>\<open>'1d'\<close> gives two days and \<^verbatim>\<open>'30d'\<close> thirty-one; and \<^verbatim>\<open>'90d'\<close>,
  which has no branch, keeps all of a series of 100 samples.
\<close>

theorem date_window_one_sample_more:
  "dates (filteredTimeSeries (initialFilters\<lparr>dateRange := ''7d''\<rparr>) mockTimeSeriesData) =
     [''2023-06-08'', ''2023-06-09'', ''2023-06-10'', ''2023-06-11'', ''2023-06-12'',
      ''2023-06-13'', ''2023-06-14'', ''2023-06-15''] \<and>
   spec_window_size ''7d'' = Some 7 \<and>
   last_samples 7 (dates mockTimeSeriesData) =
     [''2023-06-09'', ''2023-06-10'', ''2023-06-11'', ''2023-06-12'',
      ''2023-06-13'', ''2023-06-14'', ''2023-06-15''] \<and>
   dates (filteredTimeSeries (initialFilters\<lparr>dateRange := ''1d''\<rparr>) mockTimeSeriesData) =
     [''2023-06-14'', ''2023-06-15''] \<and>
   length (dates (filteredTimeSeries (initialFilters\<lparr>dateRange := ''30d''\<rparr>) mockTimeSeriesData)) = 31 \<and>
   length (dates (filteredTimeSeries (initialFilters\<lparr>dateRange := ''90d''\<rparr>)
     \<lparr>dates = replicate 100 ''2023-01-01'', internal_conflict = replicate 100 0,
      external_conflict = replicate 100 0, economic_indicators = replicate 100 0\<rparr>)) = 100"
proof (intro conjI)
  show "dates (filteredTimeSeries (initialFilters\<lparr>dateRange := ''7d''\<rparr>) mockTimeSeriesData) =
     [''2023-06-08'', ''2023-06-09'', ''2023-06-10'', ''2023-06-11'', ''2023-06-12'',
      ''2023-06-13'', ''2023-06-14'', ''2023-06-15'']"
    by code_simp
  show "spec_window_size ''7d'' = Some 7" by code_simp
  show "last_samples 7 (dates mockTimeSeriesData) =
     [''2023-06-09'', ''2023-06-10'', ''2023-06-11'', ''2023-06-12'',
      ''2023-06-13'', ''2023-06-14'', ''2023-06-15'']"
    by code_simp
  show "dates (filteredTimeSeries (initialFilters\<lparr>dateRange := ''1d''\<rparr>) mockTimeSeriesData) =
     [''2023-06-14'', ''2023-06-15'']"
    by code_simp
  show "length (dates (filteredTimeSeries (initialFilters\<lparr>dateRange := ''30d''\<rparr>) mockTimeSeriesData)) = 31"
    by code_simp
  show "length (dates (filteredTimeSeries (initialFilters\<lparr>dateRange := ''90d''\<rparr>)
     \<lparr>dates = replicate 100 ''2023-01-01'', internal_conflict = replicate 100 0,
      external_conflict = replicate 100 0, economic_indicators = replicate 100 0\<rparr>)) = 100"
    by (simp add: date_window_length initialFilters_def)
qed

section \<open>The series of the charts\<close>

lemma known_colours:
  "css_rgba ''#f44336'' ''0.1'' = ''rgba(244, 67, 54, 0.1)''"
  "css_rgba ''#2196f3'' ''0.1'' = ''rgba(33, 150, 243, 0.1)''"
  "css_rgba ''#4caf50'' ''0.1'' = ''rgba(76, 175, 80, 0.1)''"
  "css_rgba ''#f44336'' ''0.7'' = ''rgba(244, 67, 54, 0.7)''"
  "css_rgba ''#2196f3'' ''0.7'' = ''rgba(33, 150, 243, 0.7)''"
  "css_rgba ''#4caf50'' ''0.7'' = ''rgba(76, 175, 80, 0.7)''"
  by code_simp+

lemma known_category_colours:
  "getCategoryColor ''internal_conflict'' = ''#f44336''"
  "getCategoryColor ''external_conflict'' = ''#2196f3''"
  "getCategoryColor ''economic_indicators'' = ''#4caf50''"
  by code_simp+

lemma category_cases:
  obtains "category f = ''all''" | "category f = ''internal_conflict''"
  | "category f = ''external_conflict''" | "category f = ''economic_indicators''"
  | "category f \<noteq> ''all''" "category f \<noteq> ''internal_conflict''"
    "category f \<noteq> ''external_conflict''" "category f \<noteq> ''economic_indicators''"
  by blast

lemmas chart_simps = timeSeriesDatasets_def priorityScoreDatasets_def known_series_def
  known_category_colours known_colours series_data_def

text \<open>
  Claim C9. Both charts get, in the order of the known categories, one dataset for every
  known category \<open>k\<close> with \<^verbatim>\<open>category\<close> equal to \<^verbatim>\<open>'all'\<close> or to \<open>k\<close>, and no other
  dataset: the legend label of \<open>k\<close> is among the labels exactly in that case. Each
  dataset carries the array of its category and the colour \<open>getCategoryColor\<close> gives
  the category: as the border colour and, with opacity 0.1, as the fill of the line
  chart, and with opacity 0.7 as the fill of the bar chart.
\<close>

theorem chart_series_by_category:
  "timeSeriesDatasets f ts =
     map (\<lambda>(k, l). \<lparr>label = l, data = series_data k ts,
                     borderColor = Some (getCategoryColor k),
                     backgroundColor = css_rgba (getCategoryColor k) ''0.1'',
                     tension = Some 0.4\<rparr>)
       (filter (\<lambda>(k, l). category f = ''all'' \<or> category f = k) known_series) \<and>
   priorityScoreDatasets f ts =
     map (\<lambda>(k, l). \<lparr>label = l, data = series_data k ts, borderColor = None,
                     backgroundColor = css_rgba (getCategoryColor k) ''0.7'',
                     tension = None\<rparr>)
       (filter (\<lambda>(k, l). category f = ''all'' \<or> category f = k) known_series) \<and>
   (\<forall>(k, l) \<in> set known_series.
      (l \<in> set (map label (timeSeriesDatasets f ts))) = (category f = ''all'' \<or> category f = k) \<and>
      (l \<in> set (map label (priorityScoreDatasets f ts))) = (category f = ''all'' \<or> category f = k))"
proof (cases f rule: category_cases)
  case 1
  then show ?thesis by (simp add: chart_simps)
next
  case 2
  then show ?thesis by (simp add: chart_simps)
next
  case 3
  then show ?thesis by (simp add: chart_simps)
next
  case 4
  then show ?thesis by (simp add: chart_simps)
next
  case 5
  then show ?thesis by (simp add: chart_simps)
qed

theorem chart_series_by_category_witness:
  "map label (timeSeriesDatasets (initialFilters\<lparr>category := ''external_conflict''\<rparr>)
     (filteredTimeSeries (initialFilters\<lparr>category := ''external_conflict''\<rparr>) mockTimeSeriesData)) =
     [''External Conflict''] \<and>
   map borderColor (timeSeriesDatasets (initialFilters\<lparr>category := ''external_conflict''\<rparr>)
     (filteredTimeSeries (initialFilters\<lparr>category := ''external_conflict''\<rparr>) mockTimeSeriesData)) =
     [Some (getCategoryColor ''external_conflict'')] \<and>
   map label (priorityScoreDatasets initialFilters mockPriorityScoreData) =
     [''Internal Conflict'', ''External Conflict'', ''Economic Indicators'']"
proof -
  let ?f = "initialFilters\<lparr>category := ''external_conflict''\<rparr>"
  have c: "category ?f = ''external_conflict''" "category initialFilters = ''all''"
    by (simp_all add: initialFilters_def)
  show ?thesis
    using chart_series_by_category [of ?f "filteredTimeSeries ?f mockTimeSeriesData"]
      chart_series_by_category [of initialFilters mockPriorityScoreData]
    by (simp add: c known_series_def)
qed

end
